theory Spec2Isabelle
  imports Main
begin

section \<open>Data model\<close>

text \<open>
  Modelled from the spec: the shape of a product (section 3), which the missing
  \<^verbatim>\<open>routes/admin\<close> constructs; \<^verbatim>\<open>routes/shop.js\<close> only counts products and passes
  them on. Nothing inspects the price (a form submission delivers it as text, a direct
  call may pass a number), so its type is a parameter.
\<close>

record 'p product =
  ident :: nat
  title :: string
  imageUrl :: string
  price :: 'p
  description :: string

text \<open>
  The object exported by \<^verbatim>\<open>routes/admin\<close> as far as \<^verbatim>\<open>routes/shop.js\<close> reads it:
  its \<^verbatim>\<open>products\<close> array, the only mutable state of the process. Its \<^verbatim>\<open>routes\<close>
  member is a parameter of the application below.
\<close>

record 'p adminData =
  products :: "'p product list"

text \<open>The request methods the application tells apart, and any other by its name.\<close>

datatype httpMethod = GET | HEAD | POST | OPTIONS | OtherMethod string

text \<open>
  A request: the method, the path of the URL (no query string), and what
  \<^verbatim>\<open>bodyParser.urlencoded\<close> makes of the body: the form fields it puts in
  \<^verbatim>\<open>req.body\<close>, or the status of the error it raises on a body it rejects (413 for
  more than 1000 parameters or more than 100kb, 415 for a charset other than UTF-8, 400
  for a body cut short).
\<close>

record request =
  reqMethod :: httpMethod
  reqPath :: string
  reqBody :: "(string \<times> string) list"
  bodyError :: "nat option"

text \<open>The values of the objects handed to \<^verbatim>\<open>res.render\<close>.\<close>

datatype 'p jsval = JStr string | JBool bool | JProducts "'p product list"

type_synonym 'p locals = "(string \<times> 'p jsval) list"

text \<open>
  What a response ends with: a template and its locals handed to the renderer, a redirect,
  a file of the public directory, the list of methods a router allows at a path (its
  answer to OPTIONS), or the page of the framework's own final handler. Producing HTML
  from a template is the renderer's work and is not modelled.
\<close>

datatype 'p reply =
    NoReply
  | Render string "'p locals"
  | Redirect string
  | SendFile string
  | Allow string
  | FinalHandler

record 'p response =
  statusCode :: nat
  reply :: "'p reply"

text \<open>What the public directory holds at a path.\<close>

datatype publicEntry = File string | Directory

text \<open>
  A middleware ends the response (possibly changing the store), calls \<^verbatim>\<open>next()\<close>, or
  calls \<^verbatim>\<open>next(err)\<close> with an error that carries a status.
\<close>

datatype 'p outcome = Sent "'p response" "'p adminData" | Next | Failed nat

type_synonym 'p middleware = "request \<Rightarrow> 'p response \<Rightarrow> 'p adminData \<Rightarrow> 'p outcome"

section \<open>The response object\<close>

text \<open>A fresh response has status 200 until \<^verbatim>\<open>res.status\<close> changes it.\<close>

definition newResponse :: "'p response" where
  "newResponse = \<lparr>statusCode = 200, reply = NoReply\<rparr>"

definition status :: "nat \<Rightarrow> 'p response \<Rightarrow> 'p response" where
  "status code res = res\<lparr>statusCode := code\<rparr>"

definition render :: "string \<Rightarrow> 'p locals \<Rightarrow> 'p response \<Rightarrow> 'p response" where
  "render view opts res = res\<lparr>reply := Render view opts\<rparr>"

definition redirect :: "string \<Rightarrow> 'p response \<Rightarrow> 'p response" where
  "redirect url res = res\<lparr>statusCode := 302, reply := Redirect url\<rparr>"

definition sendFile :: "string \<Rightarrow> 'p response \<Rightarrow> 'p response" where
  "sendFile contents res = res\<lparr>reply := SendFile contents\<rparr>"

section \<open>routes/shop.js\<close>

text \<open>
  The read of \<^verbatim>\<open>adminData.products\<close> (line 11), which the specification calls
  \<^verbatim>\<open>listProducts\<close>: it returns the array and the store as it found it.
\<close>

definition listProducts :: "'p adminData \<Rightarrow> 'p product list \<times> 'p adminData" where
  "listProducts adminData = (products adminData, adminData)"

text \<open>The handler of \<^verbatim>\<open>router.get('/')\<close>, lines 10 to 15.\<close>

definition showShop :: "request \<Rightarrow> 'p response \<Rightarrow> 'p adminData \<Rightarrow> 'p response \<times> 'p adminData" where
  "showShop req res adminData =
     (let (prods, adminData') = listProducts adminData
      in (render ''shop''
            [(''prods'', JProducts prods),
             (''pageTitle'', JStr ''Shop''),
             (''path'', JStr ''/''),
             (''hasProducts'', JBool (length prods > 0))] res,
          adminData'))"

text \<open>
  A route registered with \<^verbatim>\<open>get\<close> answers GET and, having no handler of its own for it,
  HEAD.
\<close>

definition handlesGet :: "httpMethod \<Rightarrow> bool" where
  "handlesGet m = (m = GET \<or> m = HEAD)"

text \<open>
  The router exported by \<^verbatim>\<open>routes/shop.js\<close>: one route, GET on the root path. An
  OPTIONS request for that path finds the route but no handler, and the router answers it
  itself with the methods the route allows; every other request goes to \<^verbatim>\<open>next()\<close>.
\<close>

definition shopRoutes :: "'p middleware" where
  "shopRoutes req res adminData =
     (if reqPath req = ''/''
      then (if handlesGet (reqMethod req)
            then (case showShop req res adminData of (res', adminData') \<Rightarrow> Sent res' adminData')
            else if reqMethod req = OPTIONS
            then Sent (res\<lparr>reply := Allow ''GET,HEAD''\<rparr>) adminData
            else Next)
      else Next)"

section \<open>The application\<close>

text \<open>
  \<^verbatim>\<open>bodyParser.urlencoded\<close> fills \<^verbatim>\<open>req.body\<close> (here already \<^const>\<open>reqBody\<close>) and
  calls \<^verbatim>\<open>next()\<close>; on a body it rejects it calls \<^verbatim>\<open>next(err)\<close> with the error.
\<close>

definition urlencoded :: "'p middleware" where
  "urlencoded req res adminData =
     (case bodyError req of
        None \<Rightarrow> Next
      | Some code \<Rightarrow> Failed code)"

text \<open>
  \<^verbatim>\<open>express.static\<close> over the public directory, given as a lookup from a request path
  to what is found there: a file to send (the index file, for a directory asked for with
  its trailing slash) or a directory asked for without the slash. It answers GET and HEAD
  only: a file is sent, a directory is redirected to the path with the slash, and
  everything else goes to \<^verbatim>\<open>next()\<close>.
\<close>

definition static :: "(string \<Rightarrow> publicEntry option) \<Rightarrow> 'p middleware" where
  "static root req res adminData =
     (if handlesGet (reqMethod req)
      then (case root (reqPath req) of
              None \<Rightarrow> Next
            | Some (File contents) \<Rightarrow> Sent (sendFile contents res) adminData
            | Some Directory \<Rightarrow>
                Sent (res\<lparr>statusCode := 301, reply := Redirect (reqPath req @ ''/'')\<rparr>) adminData)
      else Next)"

text \<open>Route patterns are compared without regard to the case of ASCII letters.\<close>

definition toLower :: "char \<Rightarrow> char" where
  "toLower c =
     (let n = (of_char c :: nat)
      in if 65 \<le> n \<and> n \<le> 90 then char_of (n + 32) else c)"

text \<open>
  \<^verbatim>\<open>app.use(prefix, router)\<close>: the router sees a request whose path starts with the
  prefix, followed by a slash or by nothing, with the prefix taken off the path.
\<close>

definition underPrefix :: "string \<Rightarrow> string \<Rightarrow> bool" where
  "underPrefix prefix p =
     (map toLower (take (length prefix) p) = map toLower prefix
      \<and> (case drop (length prefix) p of [] \<Rightarrow> True | c # _ \<Rightarrow> c = CHR ''/''))"

definition stripPrefix :: "string \<Rightarrow> string \<Rightarrow> string" where
  "stripPrefix prefix p =
     (case drop (length prefix) p of [] \<Rightarrow> ''/'' | c # cs \<Rightarrow> c # cs)"

definition mount :: "string \<Rightarrow> 'p middleware \<Rightarrow> 'p middleware" where
  "mount prefix router req res adminData =
     (if underPrefix prefix (reqPath req)
      then router (req\<lparr>reqPath := stripPrefix prefix (reqPath req)\<rparr>) res adminData
      else Next)"

text \<open>The catch-all middleware of lines 25 to 27.\<close>

definition notFound :: "'p middleware" where
  "notFound req res adminData =
     Sent (render ''404'' [(''pageTitle'', JStr ''Page Not Found'')] (status 404 res)) adminData"

text \<open>
  The status the final handler answers an error with: the error's own when it is a client
  or server error status, 500 otherwise.
\<close>

definition errorStatus :: "nat \<Rightarrow> nat" where
  "errorStatus code = (if 400 \<le> code \<and> code < 600 then code else 500)"

text \<open>
  The middleware run in the order of their registration. A request that none of them
  answers reaches the framework's final handler. So does an error: it skips every
  middleware of three arguments, and the application registers none of four.
\<close>

fun runChain :: "'p middleware list \<Rightarrow> request \<Rightarrow> 'p response \<Rightarrow> 'p adminData
    \<Rightarrow> 'p response \<times> 'p adminData" where
  "runChain [] req res adminData = (res\<lparr>statusCode := 404, reply := FinalHandler\<rparr>, adminData)"
| "runChain (m # ms) req res adminData =
     (case m req res adminData of
        Sent res' adminData' \<Rightarrow> (res', adminData')
      | Next \<Rightarrow> runChain ms req res adminData
      | Failed code \<Rightarrow> (res\<lparr>statusCode := errorStatus code, reply := FinalHandler\<rparr>, adminData))"

text \<open>
  The application of lines 16 to 27, over the public directory and the router that
  \<^verbatim>\<open>routes/admin\<close> exports.
\<close>

definition app :: "(string \<Rightarrow> publicEntry option) \<Rightarrow> 'p middleware \<Rightarrow> request \<Rightarrow> 'p adminData
    \<Rightarrow> 'p response \<times> 'p adminData" where
  "app publicDir adminRoutes req adminData =
     runChain
       [urlencoded,
        static publicDir,
        mount ''/admin'' adminRoutes,
        shopRoutes,
        notFound]
       req newResponse adminData"

text \<open>
  What \<^verbatim>\<open>require('express-handlebars')\<close> of line 5 evaluates to: up to version 5 of
  the package the module is itself the function that builds the engine; from version 6 on
  it is an object whose \<^verbatim>\<open>engine\<close> member builds it, and the module is not callable.
\<close>

datatype hbsModule = EngineFactory | EngineObject

datatype startupError = TypeError string

text \<open>What the running program has fixed: the view engine, the views directory, the port.\<close>

record server =
  viewEngine :: string
  views :: string
  listenPort :: nat

text \<open>
  The statements of the program in their order, as far as they decide whether and where it
  listens: line 9 calls the module, which raises when the module is not callable and ends
  the program there; lines 10 and 11 set the view engine and the views directory; line 29
  listens.
\<close>

definition main :: "hbsModule \<Rightarrow> startupError + server" where
  "main expressHbs =
     (case expressHbs of
        EngineObject \<Rightarrow> Inl (TypeError ''expressHbs is not a function'')
      | EngineFactory \<Rightarrow> Inr \<lparr>viewEngine = ''hbs'', views = ''views'', listenPort = 3000\<rparr>)"

section \<open>Observing a response\<close>

text \<open>Whether a response hands a template to the renderer.\<close>

definition rendered :: "'p response \<Rightarrow> bool" where
  "rendered res = (case reply res of Render view opts \<Rightarrow> True | _ \<Rightarrow> False)"

text \<open>The four values a call of \<^verbatim>\<open>addProduct\<close> was given, read back from a product.\<close>

definition callOf :: "'p product \<Rightarrow> string \<times> string \<times> 'p \<times> string" where
  "callOf product = (title product, imageUrl product, price product, description product)"

section \<open>The catalogue store and the admin handler\<close>

text \<open>
  Modelled from the spec: \<^verbatim>\<open>routes/admin\<close>, which holds the store's write operation
  and the admin handlers, is not among the sources. The identifier of a new product is
  "assigned by the store, unique, monotonically increasing" (section 3): one more than
  the largest identifier the list holds.
\<close>

definition freshId :: "'p product list \<Rightarrow> nat" where
  "freshId ps = Suc (fold max (map ident ps) 0)"

text \<open>
  Modelled from the spec: \<^verbatim>\<open>addProduct\<close> of the missing \<^verbatim>\<open>routes/admin\<close> (section 4.1)
  "constructs a Product with a freshly assigned unique identifier and appends it to the
  list", validates nothing and has no error condition. It returns the product and the
  store after the call.
\<close>

definition addProduct :: "string \<Rightarrow> string \<Rightarrow> 'p \<Rightarrow> string \<Rightarrow> 'p adminData
    \<Rightarrow> 'p product \<times> 'p adminData" where
  "addProduct t i p d adminData =
     (let product = \<lparr>ident = freshId (products adminData), title = t, imageUrl = i,
                      price = p, description = d\<rparr>
      in (product, adminData\<lparr>products := products adminData @ [product]\<rparr>))"

text \<open>
  Modelled from the spec: a sequence of calls of the missing \<^verbatim>\<open>addProduct\<close>, each given
  by its four arguments, run in order (section 8). It returns the products the calls
  returned, in call order, and the store after the last call.
\<close>

fun addProducts :: "(string \<times> string \<times> 'p \<times> string) list \<Rightarrow> 'p adminData
    \<Rightarrow> 'p product list \<times> 'p adminData" where
  "addProducts [] adminData = ([], adminData)"
| "addProducts ((t, i, p, d) # calls) adminData =
     (case addProduct t i p d adminData of
        (product, adminData') \<Rightarrow>
          (case addProducts calls adminData' of
             (created, adminData'') \<Rightarrow> (product # created, adminData'')))"

text \<open>
  Modelled from the spec: the failure of the missing admin handler on a form that lacks a
  field, which "would surface as uncaught failures" (section 7).
\<close>

datatype handlerError = MissingField string

definition formField :: "request \<Rightarrow> string \<Rightarrow> handlerError + string" where
  "formField req name =
     (case map_of (reqBody req) name of
        None \<Rightarrow> Inl (MissingField name)
      | Some v \<Rightarrow> Inr v)"

text \<open>
  Modelled from the spec: \<^verbatim>\<open>postAddProduct\<close> of the missing \<^verbatim>\<open>routes/admin\<close>
  (section 4.2), which "extracts title, image URL, price, description from the submitted
  form data", "calls Catalog Store's add operation, then issues a redirect response to the
  shop root path". The fields are named as the parameters of \<^verbatim>\<open>addProduct\<close>; the
  price is passed on as the text it arrived as.
\<close>

definition postAddProduct :: "request \<Rightarrow> string response \<Rightarrow> string adminData
    \<Rightarrow> handlerError + (string response \<times> string adminData)" where
  "postAddProduct req res adminData =
     (case formField req ''title'' of
        Inl e \<Rightarrow> Inl e
      | Inr t \<Rightarrow>
     (case formField req ''imageUrl'' of
        Inl e \<Rightarrow> Inl e
      | Inr i \<Rightarrow>
     (case formField req ''price'' of
        Inl e \<Rightarrow> Inl e
      | Inr p \<Rightarrow>
     (case formField req ''description'' of
        Inl e \<Rightarrow> Inl e
      | Inr d \<Rightarrow>
     (case addProduct t i p d adminData of
        (product, adminData') \<Rightarrow> Inr (redirect ''/'' res, adminData'))))))"

section \<open>Auxiliary facts\<close>

lemma underPrefix_root: "\<not> underPrefix ''/admin'' ''/''"
  by (simp add: underPrefix_def)

lemma ident_le_fold_max: "p \<in> set ps \<Longrightarrow> ident p \<le> fold max (map ident ps) a"
proof -
  assume "p \<in> set ps"
  then have "ident p \<in> set (a # map ident ps)" by simp
  then have "ident p \<le> Max (set (a # map ident ps))" by (intro Max_ge) auto
  then show ?thesis by (simp only: Max.set_eq_fold)
qed

lemma freshId_greater: "p \<in> set ps \<Longrightarrow> ident p < freshId ps"
  using ident_le_fold_max [of p ps 0] by (simp add: freshId_def)

lemma freshId_notin: "freshId ps \<notin> ident ` set ps"
  using freshId_greater by fastforce

lemma addProduct_products:
  "addProduct t i p d s = (x, s') \<Longrightarrow> products s' = products s @ [x]"
  by (auto simp: addProduct_def Let_def)

lemma addProduct_callOf:
  "addProduct t i p d s = (x, s') \<Longrightarrow> callOf x = (t, i, p, d)"
  by (auto simp: addProduct_def Let_def callOf_def)

lemma addProduct_ident:
  "addProduct t i p d s = (x, s') \<Longrightarrow> ident x = freshId (products s)"
  by (auto simp: addProduct_def Let_def)

lemma addProducts_products:
  "addProducts calls s = (created, s') \<Longrightarrow> products s' = products s @ created"
proof (induction calls arbitrary: s created s')
  case Nil
  then show ?case by simp
next
  case (Cons c calls)
  obtain t i p d where c: "c = (t, i, p, d)" by (cases c) auto
  obtain x s1 where a: "addProduct t i p d s = (x, s1)" by (cases "addProduct t i p d s")
  obtain xs s2 where b: "addProducts calls s1 = (xs, s2)" by (cases "addProducts calls s1")
  from Cons.prems c a b have e: "created = x # xs" "s' = s2" by auto
  from Cons.IH [OF b] addProduct_products [OF a] e show ?case by simp
qed

lemma addProducts_callOf:
  "addProducts calls s = (created, s') \<Longrightarrow> map callOf created = calls"
proof (induction calls arbitrary: s created s')
  case Nil
  then show ?case by simp
next
  case (Cons c calls)
  obtain t i p d where c: "c = (t, i, p, d)" by (cases c) auto
  obtain x s1 where a: "addProduct t i p d s = (x, s1)" by (cases "addProduct t i p d s")
  obtain xs s2 where b: "addProducts calls s1 = (xs, s2)" by (cases "addProducts calls s1")
  from Cons.prems c a b have e: "created = x # xs" by auto
  from Cons.IH [OF b] addProduct_callOf [OF a] e c show ?case by simp
qed

lemma addProducts_distinct:
  "addProducts calls s = (created, s') \<Longrightarrow> distinct (map ident (products s))
     \<Longrightarrow> distinct (map ident (products s'))"
proof (induction calls arbitrary: s created s')
  case Nil
  then show ?case by simp
next
  case (Cons c calls)
  obtain t i p d where c: "c = (t, i, p, d)" by (cases c) auto
  obtain x s1 where a: "addProduct t i p d s = (x, s1)" by (cases "addProduct t i p d s")
  obtain xs s2 where b: "addProducts calls s1 = (xs, s2)" by (cases "addProducts calls s1")
  from Cons.prems c a b have e: "s' = s2" by auto
  have "distinct (map ident (products s1))"
    using addProduct_products [OF a] addProduct_ident [OF a] Cons.prems(2)
      freshId_notin [of "products s"] by simp
  from Cons.IH [OF b this] e show ?case by simp
qed

lemma postAddProduct_success:
  assumes "postAddProduct req res adminData = Inr (res', adminData')"
  shows "\<exists>t i p d. formField req ''title'' = Inr t \<and> formField req ''imageUrl'' = Inr i
    \<and> formField req ''price'' = Inr p \<and> formField req ''description'' = Inr d
    \<and> adminData' = snd (addProduct t i p d adminData) \<and> res' = redirect ''/'' res"
  using assms by (auto simp: postAddProduct_def split: sum.splits prod.splits)


section \<open>The shop listing\<close>

text \<open>
  Claim C2: whatever the store holds, the shop handler hands the renderer the template
  \<^verbatim>\<open>shop\<close> with exactly the store's products as \<^verbatim>\<open>prods\<close>, the page title "Shop", the
  path "/" and \<^verbatim>\<open>hasProducts\<close> true exactly when there is at least one product.
\<close>

theorem showShop_renders_shop:
  "fst (showShop req res adminData) =
     res\<lparr>reply := Render ''shop''
       [(''prods'', JProducts (products adminData)),
        (''pageTitle'', JStr ''Shop''),
        (''path'', JStr ''/''),
        (''hasProducts'', JBool (0 < length (products adminData)))]\<rparr>"
  by (simp add: showShop_def listProducts_def render_def)

text \<open>
  Claim C3: when the store holds no products, the listing operation returns the empty
  sequence, and the shop handler passes the empty sequence as \<^verbatim>\<open>prods\<close> and false as
  \<^verbatim>\<open>hasProducts\<close>.
\<close>

theorem empty_store_has_no_products:
  assumes "products adminData = []"
  shows "fst (listProducts adminData) = []
    \<and> (\<exists>view opts. reply (fst (showShop req res adminData)) = Render view opts
          \<and> map_of opts ''prods'' = Some (JProducts [])
          \<and> map_of opts ''hasProducts'' = Some (JBool False))"
  using assms by (simp add: showShop_def listProducts_def render_def)

theorem empty_store_has_no_products_witness:
  "products (\<lparr>products = []\<rparr> :: int adminData) = []
   \<and> fst (listProducts (\<lparr>products = []\<rparr> :: int adminData)) = []
   \<and> (\<exists>view opts.
         reply (fst (showShop \<lparr>reqMethod = GET, reqPath = ''/'', reqBody = [], bodyError = None\<rparr> newResponse
                  (\<lparr>products = []\<rparr> :: int adminData))) = Render view opts
         \<and> map_of opts ''prods'' = Some (JProducts [])
         \<and> map_of opts ''hasProducts'' = Some (JBool False))"
  using empty_store_has_no_products
    [of "\<lparr>products = []\<rparr> :: int adminData"
        "\<lparr>reqMethod = GET, reqPath = ''/'', reqBody = [], bodyError = None\<rparr>" newResponse]
  by simp

section \<open>The store's write operation\<close>

text \<open>
  Claim C5: \<^verbatim>\<open>addProduct\<close> returns for every input, with no error: the product it returns
  carries the four values as they were given (an empty title or a negative price
  included) and an identifier that no product of the list has; the list afterwards is the
  list before with that product appended, so it is longer by exactly one.
\<close>

theorem addProduct_appends_fresh:
  "\<exists>product adminData'.
     addProduct t i p d adminData = (product, adminData')
     \<and> products adminData' = products adminData @ [product]
     \<and> length (products adminData') = length (products adminData) + 1
     \<and> title product = t \<and> imageUrl product = i \<and> price product = p \<and> description product = d
     \<and> ident product \<notin> ident ` set (products adminData)"
  using freshId_notin [of "products adminData"] by (simp add: addProduct_def Let_def)

theorem addProduct_accepts_malformed:
  "\<exists>product adminData'.
     addProduct '''' ''/img.png'' (- 5 :: int) ''cotton'' \<lparr>products = []\<rparr> = (product, adminData')
     \<and> products adminData' = [product]
     \<and> title product = '''' \<and> price product = - 5"
  using addProduct_appends_fresh [of "''''" "''/img.png''" "- 5 :: int" "''cotton''" "\<lparr>products = []\<rparr>"]
  by auto

text \<open>
  Claim C1: after any sequence of \<^verbatim>\<open>addProduct\<close> calls on the empty store, the listing
  is exactly the products those calls returned, in call order; they carry the values of
  the calls, in order; and their identifiers are pairwise distinct, also when two calls
  pass equal values.
\<close>

theorem addProducts_listed_in_call_order:
  assumes "addProducts calls \<lparr>products = []\<rparr> = (created, adminData)"
  shows "fst (listProducts adminData) = created
    \<and> map callOf created = calls
    \<and> distinct (map ident created)"
proof -
  have p: "products adminData = created"
    using addProducts_products [OF assms] by simp
  have d: "distinct (map ident (products adminData))"
    using addProducts_distinct [OF assms] by simp
  show ?thesis
    using p d addProducts_callOf [OF assms] by (simp add: listProducts_def)
qed

theorem addProducts_listed_in_call_order_witness:
  "addProducts [(''Shirt'', ''/img.png'', 1999 :: int, ''cotton''),
                (''Shirt'', ''/img.png'', 1999, ''cotton'')] \<lparr>products = []\<rparr> =
     ([\<lparr>ident = 1, title = ''Shirt'', imageUrl = ''/img.png'', price = 1999, description = ''cotton''\<rparr>,
       \<lparr>ident = 2, title = ''Shirt'', imageUrl = ''/img.png'', price = 1999, description = ''cotton''\<rparr>],
      \<lparr>products =
        [\<lparr>ident = 1, title = ''Shirt'', imageUrl = ''/img.png'', price = 1999, description = ''cotton''\<rparr>,
         \<lparr>ident = 2, title = ''Shirt'', imageUrl = ''/img.png'', price = 1999, description = ''cotton''\<rparr>]\<rparr>)
   \<and> fst (listProducts \<lparr>products =
        [\<lparr>ident = 1, title = ''Shirt'', imageUrl = ''/img.png'', price = 1999 :: int, description = ''cotton''\<rparr>,
         \<lparr>ident = 2, title = ''Shirt'', imageUrl = ''/img.png'', price = 1999, description = ''cotton''\<rparr>]\<rparr>) =
       [\<lparr>ident = 1, title = ''Shirt'', imageUrl = ''/img.png'', price = 1999, description = ''cotton''\<rparr>,
        \<lparr>ident = 2, title = ''Shirt'', imageUrl = ''/img.png'', price = 1999, description = ''cotton''\<rparr>]
   \<and> distinct (map ident
       [\<lparr>ident = 1, title = ''Shirt'', imageUrl = ''/img.png'', price = 1999 :: int, description = ''cotton''\<rparr>,
        \<lparr>ident = 2, title = ''Shirt'', imageUrl = ''/img.png'', price = 1999, description = ''cotton''\<rparr>])"
proof -
  let ?c = "(''Shirt'', ''/img.png'', 1999 :: int, ''cotton'')"
  let ?p1 = "\<lparr>ident = 1, title = ''Shirt'', imageUrl = ''/img.png'', price = 1999 :: int,
      description = ''cotton''\<rparr>"
  let ?p2 = "\<lparr>ident = 2, title = ''Shirt'', imageUrl = ''/img.png'', price = 1999 :: int,
      description = ''cotton''\<rparr>"
  have h: "addProducts [?c, ?c] \<lparr>products = []\<rparr> = ([?p1, ?p2], \<lparr>products = [?p1, ?p2]\<rparr>)"
    by (simp add: addProduct_def freshId_def Let_def)
  from addProducts_listed_in_call_order [OF h] h show ?thesis by simp
qed

section \<open>The add-product form\<close>

text \<open>
  Claim C7: when \<^verbatim>\<open>postAddProduct\<close> succeeds, the form held a title, an image URL, a
  price and a description; the store afterwards is the one \<^verbatim>\<open>addProduct\<close> leaves when
  called with these four values; and the response is a redirect to the root path, with no
  template rendered.
\<close>

theorem postAddProduct_adds_and_redirects:
  assumes "postAddProduct req res adminData = Inr (res', adminData')"
  shows "\<exists>t i p d.
      map_of (reqBody req) ''title'' = Some t
    \<and> map_of (reqBody req) ''imageUrl'' = Some i
    \<and> map_of (reqBody req) ''price'' = Some p
    \<and> map_of (reqBody req) ''description'' = Some d
    \<and> adminData' = snd (addProduct t i p d adminData)
    \<and> reply res' = Redirect ''/''
    \<and> statusCode res' = 302
    \<and> \<not> rendered res'"
proof -
  from postAddProduct_success [OF assms] obtain t i p d where
    f: "formField req ''title'' = Inr t" "formField req ''imageUrl'' = Inr i"
       "formField req ''price'' = Inr p" "formField req ''description'' = Inr d"
    and s: "adminData' = snd (addProduct t i p d adminData)"
    and r: "res' = redirect ''/'' res"
    by blast
  from f have "map_of (reqBody req) ''title'' = Some t"
    "map_of (reqBody req) ''imageUrl'' = Some i"
    "map_of (reqBody req) ''price'' = Some p"
    "map_of (reqBody req) ''description'' = Some d"
    by (auto simp: formField_def split: option.splits)
  moreover from r have "reply res' = Redirect ''/''" "statusCode res' = 302" "\<not> rendered res'"
    by (simp_all add: redirect_def rendered_def)
  ultimately show ?thesis using s by blast
qed

theorem postAddProduct_adds_and_redirects_witness:
  "postAddProduct
     \<lparr>reqMethod = POST, reqPath = ''/add-product'',
      reqBody = [(''title'', ''Shirt''), (''imageUrl'', ''/img.png''), (''price'', ''19.99''),
                 (''description'', ''cotton'')],
      bodyError = None\<rparr>
     newResponse \<lparr>products = []\<rparr> =
   Inr (\<lparr>statusCode = 302, reply = Redirect ''/''\<rparr>,
        \<lparr>products = [\<lparr>ident = 1, title = ''Shirt'', imageUrl = ''/img.png'', price = ''19.99'',
                       description = ''cotton''\<rparr>]\<rparr>)
   \<and> \<not> rendered (\<lparr>statusCode = 302, reply = Redirect ''/''\<rparr> :: string response)"
proof -
  let ?req = "\<lparr>reqMethod = POST, reqPath = ''/add-product'',
      reqBody = [(''title'', ''Shirt''), (''imageUrl'', ''/img.png''), (''price'', ''19.99''),
                 (''description'', ''cotton'')],
      bodyError = None\<rparr>"
  let ?res = "\<lparr>statusCode = 302, reply = Redirect ''/''\<rparr> :: string response"
  let ?s = "\<lparr>products = [\<lparr>ident = 1, title = ''Shirt'', imageUrl = ''/img.png'',
      price = ''19.99'', description = ''cotton''\<rparr>]\<rparr>"
  have h: "postAddProduct ?req newResponse \<lparr>products = []\<rparr> = Inr (?res, ?s)"
    by (simp add: postAddProduct_def formField_def addProduct_def freshId_def redirect_def
        newResponse_def Let_def)
  from postAddProduct_adds_and_redirects [OF h] h show ?thesis by blast
qed

section \<open>The catch-all\<close>




section \<open>Reading does not write\<close>

text \<open>
  Claim C6: reading the product list leaves the store as it was, and so does the shop
  handler: after a GET of the root path, served by the handler or by a file of the public
  directory or rejected by the parser, the store equals the store before it.
\<close>

theorem showShop_keeps_store:
  "snd (listProducts adminData) = adminData
   \<and> snd (showShop req res adminData) = adminData
   \<and> snd (app publicDir adminRoutes
        \<lparr>reqMethod = GET, reqPath = ''/'', reqBody = form, bodyError = err\<rparr> adminData)
       = adminData"
  by (simp add: listProducts_def showShop_def app_def urlencoded_def static_def mount_def
      underPrefix_root shopRoutes_def handlesGet_def split: option.splits publicEntry.splits)

section \<open>Start-up\<close>


section \<open>Read after write\<close>

text \<open>
  Claim C8, as amended: after a successful add-product submission, the next GET of the
  root path, when the parser accepts it and the public directory has no index file
  answering that path, renders the shop template over the store's list as it is then: the
  list before the submission followed by the new product, which carries the submitted
  values, with \<^verbatim>\<open>hasProducts\<close> true.
\<close>

theorem shop_shows_added_product:
  assumes "postAddProduct req res adminData = Inr (res', adminData')"
    and "reqMethod get = GET"
    and "reqPath get = ''/''"
    and "bodyError get = None"
    and "publicDir ''/'' = None"
  shows "\<exists>new.
      fst (app publicDir adminRoutes get adminData') =
        \<lparr>statusCode = 200,
         reply = Render ''shop''
           [(''prods'', JProducts (products adminData @ [new])),
            (''pageTitle'', JStr ''Shop''),
            (''path'', JStr ''/''),
            (''hasProducts'', JBool True)]\<rparr>
    \<and> map_of (reqBody req) ''title'' = Some (title new)
    \<and> map_of (reqBody req) ''imageUrl'' = Some (imageUrl new)
    \<and> map_of (reqBody req) ''price'' = Some (price new)
    \<and> map_of (reqBody req) ''description'' = Some (description new)"
proof -
  from postAddProduct_success [OF assms(1)] obtain t i p d where
    f: "formField req ''title'' = Inr t" "formField req ''imageUrl'' = Inr i"
       "formField req ''price'' = Inr p" "formField req ''description'' = Inr d"
    and s: "adminData' = snd (addProduct t i p d adminData)"
    by blast
  define new where "new = fst (addProduct t i p d adminData)"
  have a: "addProduct t i p d adminData = (new, adminData')"
    using s new_def by simp
  have ps: "products adminData' = products adminData @ [new]"
    by (rule addProduct_products [OF a])
  have c: "callOf new = (t, i, p, d)"
    by (rule addProduct_callOf [OF a])
  have page: "fst (app publicDir adminRoutes get adminData') =
        \<lparr>statusCode = 200,
         reply = Render ''shop''
           [(''prods'', JProducts (products adminData @ [new])),
            (''pageTitle'', JStr ''Shop''),
            (''path'', JStr ''/''),
            (''hasProducts'', JBool True)]\<rparr>"
    using assms(2-5) ps
    by (simp add: app_def urlencoded_def static_def mount_def underPrefix_root shopRoutes_def
        handlesGet_def showShop_def listProducts_def render_def newResponse_def)
  from f c have "map_of (reqBody req) ''title'' = Some (title new)"
    "map_of (reqBody req) ''imageUrl'' = Some (imageUrl new)"
    "map_of (reqBody req) ''price'' = Some (price new)"
    "map_of (reqBody req) ''description'' = Some (description new)"
    by (auto simp: formField_def callOf_def split: option.splits)
  with page show ?thesis by blast
qed

theorem shop_shows_added_product_witness:
  "postAddProduct
     \<lparr>reqMethod = POST, reqPath = ''/add-product'',
      reqBody = [(''title'', ''Shirt''), (''imageUrl'', ''/img.png''), (''price'', ''19.99''),
                 (''description'', ''cotton'')],
      bodyError = None\<rparr>
     newResponse \<lparr>products = []\<rparr> =
   Inr (\<lparr>statusCode = 302, reply = Redirect ''/''\<rparr>,
        \<lparr>products = [\<lparr>ident = 1, title = ''Shirt'', imageUrl = ''/img.png'', price = ''19.99'',
                       description = ''cotton''\<rparr>]\<rparr>)
   \<and> reqMethod \<lparr>reqMethod = GET, reqPath = ''/'', reqBody = [], bodyError = None\<rparr> = GET
   \<and> reqPath \<lparr>reqMethod = GET, reqPath = ''/'', reqBody = [], bodyError = None\<rparr> = ''/''
   \<and> bodyError \<lparr>reqMethod = GET, reqPath = ''/'', reqBody = [], bodyError = None\<rparr> = None
   \<and> map_of [(''/css/main.css'', File ''body {}''), (''/css'', Directory)] ''/'' = None
   \<and> (\<exists>new.
         fst (app (map_of [(''/css/main.css'', File ''body {}''), (''/css'', Directory)])
                (\<lambda>req res adminData. Next)
                \<lparr>reqMethod = GET, reqPath = ''/'', reqBody = [], bodyError = None\<rparr>
                \<lparr>products = [\<lparr>ident = 1, title = ''Shirt'', imageUrl = ''/img.png'',
                               price = ''19.99'', description = ''cotton''\<rparr>]\<rparr>) =
           \<lparr>statusCode = 200,
            reply = Render ''shop''
              [(''prods'', JProducts [new]),
               (''pageTitle'', JStr ''Shop''),
               (''path'', JStr ''/''),
               (''hasProducts'', JBool True)]\<rparr>
         \<and> title new = ''Shirt'' \<and> imageUrl new = ''/img.png''
         \<and> price new = ''19.99'' \<and> description new = ''cotton'')"
proof -
  let ?req = "\<lparr>reqMethod = POST, reqPath = ''/add-product'',
      reqBody = [(''title'', ''Shirt''), (''imageUrl'', ''/img.png''), (''price'', ''19.99''),
                 (''description'', ''cotton'')],
      bodyError = None\<rparr>"
  let ?get = "\<lparr>reqMethod = GET, reqPath = ''/'', reqBody = [], bodyError = None\<rparr>"
  let ?res = "\<lparr>statusCode = 302, reply = Redirect ''/''\<rparr> :: string response"
  let ?s = "\<lparr>products = [\<lparr>ident = 1, title = ''Shirt'', imageUrl = ''/img.png'',
      price = ''19.99'', description = ''cotton''\<rparr>]\<rparr>"
  let ?dir = "map_of [(''/css/main.css'', File ''body {}''), (''/css'', Directory)]"
  have h: "postAddProduct ?req newResponse \<lparr>products = []\<rparr> = Inr (?res, ?s)"
    by (simp add: postAddProduct_def formField_def addProduct_def freshId_def redirect_def
        newResponse_def Let_def)
  have g: "reqMethod ?get = GET" "reqPath ?get = ''/''" "bodyError ?get = None"
    by simp_all
  have d: "?dir ''/'' = None"
    by simp
  from shop_shows_added_product
    [where publicDir = ?dir and adminRoutes = "\<lambda>req res adminData. Next" and get = ?get,
      OF h g d]
  obtain new where
    "fst (app ?dir (\<lambda>req res adminData. Next) ?get ?s) =
     \<lparr>statusCode = 200,
      reply = Render ''shop''
        [(''prods'', JProducts [new]),
         (''pageTitle'', JStr ''Shop''),
         (''path'', JStr ''/''),
         (''hasProducts'', JBool True)]\<rparr>"
    "title new = ''Shirt''" "imageUrl new = ''/img.png''"
    "price new = ''19.99''" "description new = ''cotton''"
    by auto
  with h g d show ?thesis by blast
qed

text \<open>
  Claim C8 as stated, for every GET of the root path after a successful submission, fails
  twice over. The public directory is asked before the shop router, so an index file in
  it answers the root path and no listing is rendered; and a GET whose body the parser
  rejects (here for its charset, 415) never reaches the shop router.
\<close>

theorem shop_listing_not_rendered:
  "postAddProduct
     \<lparr>reqMethod = POST, reqPath = ''/add-product'',
      reqBody = [(''title'', ''Shirt''), (''imageUrl'', ''/img.png''), (''price'', ''19.99''),
                 (''description'', ''cotton'')],
      bodyError = None\<rparr>
     newResponse \<lparr>products = []\<rparr> =
   Inr (\<lparr>statusCode = 302, reply = Redirect ''/''\<rparr>,
        \<lparr>products = [\<lparr>ident = 1, title = ''Shirt'', imageUrl = ''/img.png'', price = ''19.99'',
                       description = ''cotton''\<rparr>]\<rparr>)
   \<and> app (map_of [(''/'', File ''<h1>Welcome</h1>'')]) (\<lambda>req res adminData. Next)
       \<lparr>reqMethod = GET, reqPath = ''/'', reqBody = [], bodyError = None\<rparr>
       \<lparr>products = [\<lparr>ident = 1, title = ''Shirt'', imageUrl = ''/img.png'', price = ''19.99'',
                      description = ''cotton''\<rparr>]\<rparr> =
     (\<lparr>statusCode = 200, reply = SendFile ''<h1>Welcome</h1>''\<rparr>,
      \<lparr>products = [\<lparr>ident = 1, title = ''Shirt'', imageUrl = ''/img.png'', price = ''19.99'',
                     description = ''cotton''\<rparr>]\<rparr>)
   \<and> app (\<lambda>p. None) (\<lambda>req res adminData. Next)
       \<lparr>reqMethod = GET, reqPath = ''/'', reqBody = [], bodyError = Some 415\<rparr>
       \<lparr>products = [\<lparr>ident = 1, title = ''Shirt'', imageUrl = ''/img.png'', price = ''19.99'',
                      description = ''cotton''\<rparr>]\<rparr> =
     (\<lparr>statusCode = 415, reply = FinalHandler\<rparr>,
      \<lparr>products = [\<lparr>ident = 1, title = ''Shirt'', imageUrl = ''/img.png'', price = ''19.99'',
                     description = ''cotton''\<rparr>]\<rparr>)"
  by (simp add: postAddProduct_def formField_def addProduct_def freshId_def redirect_def
      newResponse_def Let_def app_def urlencoded_def static_def handlesGet_def sendFile_def
      errorStatus_def)

end
